theory Spec2Isabelle
  imports Main "HOL-Library.Word"
begin

section \<open>Data model\<close>

text \<open>
  The repository holds three variants of one recipes service: an in-memory one (the
  global slice \<open>recipes\<close>), a MongoDB-backed one, and a MongoDB-backed one behind a
  session check (\<open>main.go\<close>, whose \<open>handlers\<close> package is not among the sources).

  The struct \<open>Recipe\<close> is the same in the first two variants up to the type of its
  \<open>ID\<close> field (\<open>string\<close> in memory, \<open>primitive.ObjectID\<close> with MongoDB), so the
  record is polymorphic in it. A \<open>time.Time\<close> is an integer count of nanoseconds
  from the zero value of the type, so a field the client left out reads \<open>0\<close>, as
  an omitted string reads as the empty string. Go's nil slice and empty slice are
  both the list \<open>[]\<close>. The handlers of the two variants carry the same names in
  the sources; here they are prefixed \<open>mem_\<close> and \<open>db_\<close>.
\<close>

record 'id Recipe =
  ID :: 'id
  Name :: string
  Tags :: "string list"
  Ingredients :: "string list"
  Instructions :: "string list"
  PublishedAt :: int

text \<open>What a handler writes with \<open>c.JSON(status, value)\<close>.\<close>

datatype 'id payload =
    ErrorMsg string
  | Message string
  | DeletedMsg string nat
  | OneRecipe "'id Recipe"
  | RecipeList "'id Recipe list"

record 'id response =
  status :: nat
  payload :: "'id payload"

abbreviation StatusOK :: nat where "StatusOK \<equiv> 200"
abbreviation StatusCreated :: nat where "StatusCreated \<equiv> 201"
abbreviation StatusBadRequest :: nat where "StatusBadRequest \<equiv> 400"
abbreviation StatusUnauthorized :: nat where "StatusUnauthorized \<equiv> 401"
abbreviation StatusNotFound :: nat where "StatusNotFound \<equiv> 404"
abbreviation StatusInternalServerError :: nat where "StatusInternalServerError \<equiv> 500"

definition JSON :: "nat \<Rightarrow> 'id payload \<Rightarrow> 'id response" where
  "JSON code obj = \<lparr>status = code, payload = obj\<rparr>"

text \<open>
  The part of a \<open>gin.Context\<close> the handlers read: the path parameter \<open>id\<close>, the
  query parameter \<open>tag\<close>, and what \<open>c.ShouldBindJSON(&recipe)\<close> yields for the body,
  either the decoder's error or the populated struct. The decoder belongs to the web
  framework; the struct declares no \<open>binding\<close> tag, so no field is required by it.
\<close>

record 'id Context =
  Param_id :: string
  Query_tag :: string
  ShouldBindJSON :: "string + 'id Recipe"

section \<open>The in-memory variant\<close>

text \<open>
  The store is the global \<open>recipes\<close>; every handler takes it and returns it. The
  identifier from \<open>xid.New().String()\<close> and the instant from \<open>time.Now()\<close> come from
  outside the program and are arguments of the create handler.
\<close>

definition mem_NewRecipeHandler ::
  "string \<Rightarrow> int \<Rightarrow> string Context \<Rightarrow> string Recipe list
    \<Rightarrow> string response \<times> string Recipe list" where
  "mem_NewRecipeHandler xid_New time_Now c recipes =
     (case ShouldBindJSON c of
        Inl err \<Rightarrow> (JSON StatusBadRequest (ErrorMsg err), recipes)
      | Inr recipe0 \<Rightarrow>
          (let recipe1 = recipe0\<lparr>ID := xid_New\<rparr>;
               recipe = recipe1\<lparr>PublishedAt := time_Now\<rparr>
           in (JSON StatusOK (OneRecipe recipe), recipes @ [recipe])))"

definition mem_ListRecipesHandler ::
  "string Context \<Rightarrow> string Recipe list \<Rightarrow> string response \<times> string Recipe list" where
  "mem_ListRecipesHandler c recipes = (JSON StatusOK (RecipeList recipes), recipes)"

text \<open>
  \<open>for i, r := range recipes { if r.ID == id { ... return } }\<close>: the index of the
  first record with the identifier, counted from \<open>i\<close>, or \<open>None\<close> when the loop falls
  through.
\<close>

fun range_find_ID :: "'id \<Rightarrow> 'id Recipe list \<Rightarrow> nat \<Rightarrow> nat option" where
  "range_find_ID id' [] i = None"
| "range_find_ID id' (r # rs) i = (if ID r = id' then Some i else range_find_ID id' rs (Suc i))"

definition mem_UpdateRecipeHandler ::
  "string Context \<Rightarrow> string Recipe list \<Rightarrow> string response \<times> string Recipe list" where
  "mem_UpdateRecipeHandler c recipes =
     (let id' = Param_id c in
      case ShouldBindJSON c of
        Inl err \<Rightarrow> (JSON StatusBadRequest (ErrorMsg err), recipes)
      | Inr recipe \<Rightarrow>
          (case range_find_ID id' recipes 0 of
             Some i \<Rightarrow> (JSON StatusOK (OneRecipe recipe), recipes[i := recipe])
           | None \<Rightarrow> (JSON StatusNotFound (ErrorMsg ''recipe not found''), recipes)))"

text \<open>\<open>append(recipes[:i], recipes[i+1:]...)\<close> at the index the loop stopped at.\<close>

definition mem_DeleteRecipeHandler ::
  "string Context \<Rightarrow> string Recipe list \<Rightarrow> string response \<times> string Recipe list" where
  "mem_DeleteRecipeHandler c recipes =
     (let id' = Param_id c in
      case range_find_ID id' recipes 0 of
        Some i \<Rightarrow> (JSON StatusOK (Message ''recipe deleted''), take i recipes @ drop (Suc i) recipes)
      | None \<Rightarrow> (JSON StatusNotFound (ErrorMsg ''recipe not found''), recipes))"

text \<open>
  The two nested loops of the search handler. The inner one walks the tags of \<open>r\<close>
  and, at the first tag equal to \<open>tag\<close>, appends \<open>r\<close> to \<open>results\<close> and breaks.
\<close>

fun range_Tags :: "string \<Rightarrow> 'id Recipe \<Rightarrow> string list \<Rightarrow> 'id Recipe list \<Rightarrow> 'id Recipe list" where
  "range_Tags tag r [] results = results"
| "range_Tags tag r (t # ts) results =
     (if t = tag then results @ [r] else range_Tags tag r ts results)"

fun range_recipes :: "string \<Rightarrow> 'id Recipe list \<Rightarrow> 'id Recipe list \<Rightarrow> 'id Recipe list" where
  "range_recipes tag [] results = results"
| "range_recipes tag (r # rs) results = range_recipes tag rs (range_Tags tag r (Tags r) results)"

definition mem_SearchRecipesHandler ::
  "string Context \<Rightarrow> string Recipe list \<Rightarrow> string response \<times> string Recipe list" where
  "mem_SearchRecipesHandler c recipes =
     (let tag = Query_tag c in
      (JSON StatusOK (RecipeList (range_recipes tag recipes [])), recipes))"

section \<open>The MongoDB-backed variant\<close>

subsection \<open>The driver\<close>

text \<open>
  \<open>primitive.ObjectID\<close> is an array of twelve bytes. \<open>primitive.ObjectIDFromHex\<close>
  belongs to the MongoDB driver: it refuses a string whose length is not 24 and
  otherwise decodes it with \<open>hex.DecodeString\<close>, which reads two hexadecimal digits
  of either case per byte and stops at the first byte that is no digit, with an
  error that names it in the format \<open>%#U\<close>: its code point in four upper-case
  hexadecimal digits, followed by the quoted character when \<open>strconv.IsPrint\<close>
  holds of it.
\<close>

type_synonym ObjectID = "8 word list"

definition fromHexChar :: "char \<Rightarrow> nat option" where
  "fromHexChar c =
     (let n = (of_char c :: nat) in
      if 48 \<le> n \<and> n \<le> 57 then Some (n - 48)
      else if 97 \<le> n \<and> n \<le> 102 then Some (n - 87)
      else if 65 \<le> n \<and> n \<le> 70 then Some (n - 55)
      else None)"

definition upper_hex_digit :: "nat \<Rightarrow> char" where
  "upper_hex_digit d = (if d < 10 then char_of (48 + d) else char_of (55 + d))"

definition IsPrint :: "nat \<Rightarrow> bool" where
  "IsPrint n =
     (if 32 \<le> n \<and> n < 127 then True
      else if 161 \<le> n \<and> n \<le> 255 then n \<noteq> 173
      else False)"

definition utf8_rune :: "nat \<Rightarrow> string" where
  "utf8_rune n =
     (if n < 128 then [char_of n]
      else [char_of (192 + n div 64), char_of (128 + n mod 64)])"

definition InvalidByteError :: "char \<Rightarrow> string" where
  "InvalidByteError c =
     (let n = (of_char c :: nat) in
      ''encoding/hex: invalid byte: U+00''
        @ [upper_hex_digit (n div 16), upper_hex_digit (n mod 16)]
        @ (if IsPrint n then '' '' @ [CHR 0x27] @ utf8_rune n @ [CHR 0x27] else []))"

fun hex_DecodeString :: "string \<Rightarrow> string + 8 word list" where
  "hex_DecodeString [] = Inr []"
| "hex_DecodeString [c] =
     (case fromHexChar c of
        None \<Rightarrow> Inl (InvalidByteError c)
      | Some x \<Rightarrow> Inl ''encoding/hex: odd length hex string'')"
| "hex_DecodeString (a # b # cs) =
     (case fromHexChar a of
        None \<Rightarrow> Inl (InvalidByteError a)
      | Some x \<Rightarrow>
          (case fromHexChar b of
             None \<Rightarrow> Inl (InvalidByteError b)
           | Some y \<Rightarrow>
               (case hex_DecodeString cs of
                  Inl err \<Rightarrow> Inl err
                | Inr ws \<Rightarrow> Inr (of_nat (16 * x + y) # ws))))"

definition ObjectIDFromHex :: "string \<Rightarrow> string + ObjectID" where
  "ObjectIDFromHex s =
     (if length s \<noteq> 24 then Inl ''the provided hex string is not a valid ObjectID''
      else case hex_DecodeString s of
             Inl err \<Rightarrow> Inl err
           | Inr b \<Rightarrow> Inr b)"

text \<open>
  The collection is a MongoDB collection, reached through the driver. It is modelled
  as the sequence of its documents in natural order together with a log of the driver
  calls made on it, so that "the store was not called" can be stated. Every driver
  call takes the outcome of its round trip to the server, \<open>io\<close>: \<open>None\<close> when the
  server answered, \<open>Some e\<close> when the driver gives up with the error \<open>e\<close>.

  The filters the handlers build are \<open>bson.M{}\<close>, \<open>bson.M{"_id": objID}\<close> and
  \<open>bson.D{{"tags", tag}}\<close>; a string matched against an array field selects the
  documents whose array holds an equal element. \<open>UpdateOne\<close> and \<open>DeleteOne\<close> act on
  the first document the filter selects and report how many they found; without the
  upsert option, \<open>UpdateOne\<close> inserts nothing. \<open>InsertOne\<close> refuses a second document
  with an \<open>_id\<close> already present (the unique index on \<open>_id\<close>); it writes a
  \<open>time.Time\<close> as a BSON datetime, which counts whole milliseconds, so the stored
  instant is the given one cut down to its millisecond.
\<close>

definition bson_DateTime :: "int \<Rightarrow> int" where
  "bson_DateTime t = (t div 1000000) * 1000000"

datatype filter_doc = M_empty | M_id ObjectID | D_tags string

datatype driver_call =
    Call_InsertOne "ObjectID Recipe"
  | Call_Find filter_doc
  | Call_UpdateOne filter_doc
  | Call_DeleteOne filter_doc

record Collection =
  documents :: "ObjectID Recipe list"
  calls :: "driver_call list"

record set_doc =
  set_name :: string
  set_instructions :: "string list"
  set_ingredients :: "string list"
  set_tags :: "string list"

record UpdateResult =
  MatchedCount :: nat
  ModifiedCount :: nat
  UpsertedCount :: nat

record DeleteResult =
  DeletedCount :: nat

fun selects :: "filter_doc \<Rightarrow> ObjectID Recipe \<Rightarrow> bool" where
  "selects M_empty d = True"
| "selects (M_id oid) d = (ID d = oid)"
| "selects (D_tags t) d = (t \<in> set (Tags d))"

fun first_selected :: "filter_doc \<Rightarrow> ObjectID Recipe list \<Rightarrow> nat \<Rightarrow> nat option" where
  "first_selected f [] i = None"
| "first_selected f (d # ds) i = (if selects f d then Some i else first_selected f ds (Suc i))"

definition logged :: "driver_call \<Rightarrow> Collection \<Rightarrow> Collection" where
  "logged call coll = coll\<lparr>calls := calls coll @ [call]\<rparr>"

definition InsertOne ::
  "string option \<Rightarrow> Collection \<Rightarrow> ObjectID Recipe \<Rightarrow> (string + ObjectID) \<times> Collection" where
  "InsertOne io coll doc =
     (let coll' = logged (Call_InsertOne doc) coll in
      case io of
        Some e \<Rightarrow> (Inl e, coll')
      | None \<Rightarrow>
          if ID doc \<in> set (map ID (documents coll))
          then (Inl ''E11000 duplicate key error'', coll')
          else (Inr (ID doc),
                coll'\<lparr>documents :=
                        documents coll @ [doc\<lparr>PublishedAt := bson_DateTime (PublishedAt doc)\<rparr>]\<rparr>))"

definition Find ::
  "string option \<Rightarrow> Collection \<Rightarrow> filter_doc \<Rightarrow> (string + ObjectID Recipe list) \<times> Collection" where
  "Find io coll f =
     (let coll' = logged (Call_Find f) coll in
      case io of
        Some e \<Rightarrow> (Inl e, coll')
      | None \<Rightarrow> (Inr (filter (selects f) (documents coll)), coll'))"

definition apply_set :: "set_doc \<Rightarrow> ObjectID Recipe \<Rightarrow> ObjectID Recipe" where
  "apply_set u d =
     d\<lparr>Name := set_name u, Instructions := set_instructions u,
       Ingredients := set_ingredients u, Tags := set_tags u\<rparr>"

definition UpdateOne ::
  "string option \<Rightarrow> Collection \<Rightarrow> filter_doc \<Rightarrow> set_doc \<Rightarrow> (string + UpdateResult) \<times> Collection" where
  "UpdateOne io coll f u =
     (let coll' = logged (Call_UpdateOne f) coll in
      case io of
        Some e \<Rightarrow> (Inl e, coll')
      | None \<Rightarrow>
          (case first_selected f (documents coll) 0 of
             None \<Rightarrow> (Inr \<lparr>MatchedCount = 0, ModifiedCount = 0, UpsertedCount = 0\<rparr>, coll')
           | Some i \<Rightarrow>
               (let d = documents coll ! i; d' = apply_set u d in
                (Inr \<lparr>MatchedCount = 1, ModifiedCount = (if d' = d then 0 else 1),
                      UpsertedCount = 0\<rparr>,
                 coll'\<lparr>documents := (documents coll)[i := d']\<rparr>))))"

definition DeleteOne ::
  "string option \<Rightarrow> Collection \<Rightarrow> filter_doc \<Rightarrow> (string + DeleteResult) \<times> Collection" where
  "DeleteOne io coll f =
     (let coll' = logged (Call_DeleteOne f) coll in
      case io of
        Some e \<Rightarrow> (Inl e, coll')
      | None \<Rightarrow>
          (case first_selected f (documents coll) 0 of
             None \<Rightarrow> (Inr \<lparr>DeletedCount = 0\<rparr>, coll')
           | Some i \<Rightarrow>
               (Inr \<lparr>DeletedCount = 1\<rparr>,
                coll'\<lparr>documents := take i (documents coll) @ drop (Suc i) (documents coll)\<rparr>)))"

subsection \<open>The handlers\<close>

text \<open>
  Each handler makes at most one driver call, so it takes one round-trip outcome
  \<open>io\<close>. \<open>primitive.NewObjectID()\<close> and \<open>time.Now()\<close> are arguments of the create
  handler, as in the in-memory variant.
\<close>

definition db_NewRecipeHandler ::
  "ObjectID \<Rightarrow> int \<Rightarrow> string option \<Rightarrow> ObjectID Context \<Rightarrow> Collection
    \<Rightarrow> ObjectID response \<times> Collection" where
  "db_NewRecipeHandler NewObjectID time_Now io c collection =
     (case ShouldBindJSON c of
        Inl err \<Rightarrow> (JSON StatusBadRequest (ErrorMsg err), collection)
      | Inr recipe0 \<Rightarrow>
          (let recipe1 = recipe0\<lparr>ID := NewObjectID\<rparr>;
               recipe = recipe1\<lparr>PublishedAt := time_Now\<rparr>
           in case InsertOne io collection recipe of
                (Inl err, collection') \<Rightarrow>
                  (JSON StatusInternalServerError (ErrorMsg err), collection')
              | (Inr _, collection') \<Rightarrow> (JSON StatusCreated (OneRecipe recipe), collection')))"

definition db_ListRecipesHandler ::
  "string option \<Rightarrow> ObjectID Context \<Rightarrow> Collection \<Rightarrow> ObjectID response \<times> Collection" where
  "db_ListRecipesHandler io c collection =
     (case Find io collection M_empty of
        (Inl err, collection') \<Rightarrow> (JSON StatusInternalServerError (ErrorMsg err), collection')
      | (Inr cur, collection') \<Rightarrow> (JSON StatusOK (RecipeList cur), collection'))"

definition db_UpdateRecipeHandler ::
  "string option \<Rightarrow> ObjectID Context \<Rightarrow> Collection \<Rightarrow> ObjectID response \<times> Collection" where
  "db_UpdateRecipeHandler io c collection =
     (let id' = Param_id c in
      case ObjectIDFromHex id' of
        Inl err \<Rightarrow> (JSON StatusBadRequest (ErrorMsg err), collection)
      | Inr objID \<Rightarrow>
          (case ShouldBindJSON c of
             Inl err \<Rightarrow> (JSON StatusBadRequest (ErrorMsg err), collection)
           | Inr recipe \<Rightarrow>
               (case UpdateOne io collection (M_id objID)
                       \<lparr>set_name = Name recipe, set_instructions = Instructions recipe,
                        set_ingredients = Ingredients recipe, set_tags = Tags recipe\<rparr> of
                  (Inl err, collection') \<Rightarrow>
                    (JSON StatusInternalServerError (ErrorMsg err), collection')
                | (Inr _, collection') \<Rightarrow>
                    (JSON StatusOK (Message ''Recipehas been updated''), collection'))))"

definition db_DeleteRecipeHandler ::
  "string option \<Rightarrow> ObjectID Context \<Rightarrow> Collection \<Rightarrow> ObjectID response \<times> Collection" where
  "db_DeleteRecipeHandler io c collection =
     (let id' = Param_id c in
      case ObjectIDFromHex id' of
        Inl err \<Rightarrow> (JSON StatusBadRequest (ErrorMsg err), collection)
      | Inr objID \<Rightarrow>
          (let filter' = M_id objID in
           case DeleteOne io collection filter' of
             (Inl err, collection') \<Rightarrow>
               (JSON StatusInternalServerError (ErrorMsg ''Failed to delete recipe''), collection')
           | (Inr result, collection') \<Rightarrow>
               if DeletedCount result = 0
               then (JSON StatusNotFound (ErrorMsg ''Recipe not found''), collection')
               else (JSON StatusOK (DeletedMsg ''Recipe successfully deleted'' (DeletedCount result)),
                     collection')))"

definition db_SearchRecipesHandler ::
  "string option \<Rightarrow> ObjectID Context \<Rightarrow> Collection \<Rightarrow> ObjectID response \<times> Collection" where
  "db_SearchRecipesHandler io c collection =
     (let tag = Query_tag c; filter' = D_tags tag in
      case Find io collection filter' of
        (Inl err, collection') \<Rightarrow> (JSON StatusInternalServerError (ErrorMsg err), collection')
      | (Inr results, collection') \<Rightarrow> (JSON StatusOK (RecipeList results), collection'))"

section \<open>The variant behind the session check\<close>

text \<open>
  \<open>main.go\<close> registers the session middleware on the router, the middleware
  \<open>authHandler.AuthMiddleware()\<close> on the group \<open>authorized\<close>, five recipe routes in
  that group, and the routes \<open>/signin\<close> and \<open>/signout\<close> on the router itself. A
  route therefore carries the middleware in front of its handler. The handlers of the
  package \<open>handlers\<close> are not among the sources; the server below takes them as a
  parameter, so that what is proved of it holds for every implementation of them.
\<close>

datatype http_method = GET | POST | PUT | DELETE

datatype segment = Lit string | Par string

datatype middleware = Sessions | AuthMiddleware

datatype handler_name =
    NewRecipeHandler
  | ListRecipesHandler
  | UpdateRecipeHandler
  | DeleteRecipeHandler
  | GetOneRecipeHandler
  | SignInHandler
  | SignOutHandler

record route =
  Verb :: http_method
  Pattern :: "segment list"
  Use :: "middleware list"
  Handle :: handler_name

definition authorized :: "http_method \<Rightarrow> segment list \<Rightarrow> handler_name \<Rightarrow> route" where
  "authorized m p h = \<lparr>Verb = m, Pattern = p, Use = [Sessions, AuthMiddleware], Handle = h\<rparr>"

definition router :: "http_method \<Rightarrow> segment list \<Rightarrow> handler_name \<Rightarrow> route" where
  "router m p h = \<lparr>Verb = m, Pattern = p, Use = [Sessions], Handle = h\<rparr>"

definition routes :: "route list" where
  "routes =
     [authorized POST [Lit ''recipes''] NewRecipeHandler,
      authorized GET [Lit ''recipes''] ListRecipesHandler,
      authorized PUT [Lit ''recipes'', Par ''id''] UpdateRecipeHandler,
      authorized DELETE [Lit ''recipes'', Par ''id''] DeleteRecipeHandler,
      authorized GET [Lit ''recipes'', Par ''id''] GetOneRecipeHandler,
      router POST [Lit ''signin''] SignInHandler,
      router POST [Lit ''signout''] SignOutHandler]"

text \<open>
  A request: its method, the segments of its path, and the session token its cookie
  carries, if any. The server state: the tokens of the sessions that are live (issued
  by a sign-in, not yet signed out or expired) and, in \<open>backend\<close>, everything the
  handlers work on, the recipe store with its call log included.
\<close>

record request =
  Method :: http_method
  Path :: "string list"
  Token :: "string option"

record 'st server =
  live :: "string list"
  backend :: 'st

definition valid_session :: "string list \<Rightarrow> request \<Rightarrow> bool" where
  "valid_session tokens req = (case Token req of None \<Rightarrow> False | Some t \<Rightarrow> t \<in> set tokens)"

datatype decision = Allow | Reject "ObjectID response"

text \<open>
  Modelled from the spec: \<open>AuthMiddleware\<close> of \<open>handlers.AuthHandler\<close>, whose source is
  missing. The spec's \<open>Authenticate\<close> rejects with \<open>Unauthorized\<close> (HTTP 401) and halts
  further processing if no valid session is attached to the request; otherwise it
  passes control to the next handler.
\<close>

definition Authenticate :: "string list \<Rightarrow> request \<Rightarrow> decision" where
  "Authenticate tokens req =
     (if valid_session tokens req then Allow
      else Reject (JSON StatusUnauthorized (ErrorMsg ''Unauthorized'')))"

text \<open>
  The chain of a route runs in order; a middleware that aborts ends it. The session
  middleware only attaches the session to the context.
\<close>

fun run_middleware :: "middleware list \<Rightarrow> request \<Rightarrow> 'st server \<Rightarrow> decision" where
  "run_middleware [] req sv = Allow"
| "run_middleware (Sessions # ms) req sv = run_middleware ms req sv"
| "run_middleware (AuthMiddleware # ms) req sv =
     (case Authenticate (live sv) req of
        Reject r \<Rightarrow> Reject r
      | Allow \<Rightarrow> run_middleware ms req sv)"

fun match_pattern :: "segment list \<Rightarrow> string list \<Rightarrow> (string \<times> string) list option" where
  "match_pattern [] [] = Some []"
| "match_pattern (Lit s # ps) (x # xs) = (if s = x then match_pattern ps xs else None)"
| "match_pattern (Par n # ps) (x # xs) =
     (if x = [] then None
      else case match_pattern ps xs of None \<Rightarrow> None | Some bs \<Rightarrow> Some ((n, x) # bs))"
| "match_pattern ps xs = None"

fun lookup_route :: "route list \<Rightarrow> request \<Rightarrow> (route \<times> (string \<times> string) list) option" where
  "lookup_route [] req = None"
| "lookup_route (rt # rts) req =
     (if Verb rt = Method req
      then (case match_pattern (Pattern rt) (Path req) of
              Some bs \<Rightarrow> Some (rt, bs)
            | None \<Rightarrow> lookup_route rts req)
      else lookup_route rts req)"

type_synonym 'st handlers =
  "handler_name \<Rightarrow> (string \<times> string) list \<Rightarrow> request \<Rightarrow> 'st server
    \<Rightarrow> ObjectID response \<times> 'st server"

definition ServeHTTP :: "'st handlers \<Rightarrow> request \<Rightarrow> 'st server \<Rightarrow> ObjectID response \<times> 'st server" where
  "ServeHTTP H req sv =
     (case lookup_route routes req of
        None \<Rightarrow> (JSON StatusNotFound (ErrorMsg ''404 page not found''), sv)
      | Some (rt, params) \<Rightarrow>
          (case run_middleware (Use rt) req sv of
             Reject r \<Rightarrow> (r, sv)
           | Allow \<Rightarrow> H (Handle rt) params req sv))"

definition recipe_handlers :: "handler_name list" where
  "recipe_handlers =
     [NewRecipeHandler, ListRecipesHandler, UpdateRecipeHandler, DeleteRecipeHandler,
      GetOneRecipeHandler]"

section \<open>Request sequences and sample data\<close>

text \<open>
  A run of create requests against the in-memory store, each with the identifier and
  the instant the handler obtained for it, and the record a single request leaves in
  the store: none when its body is refused.
\<close>

fun run_creates ::
  "(string \<times> int \<times> string Context) list \<Rightarrow> string Recipe list \<Rightarrow> string Recipe list" where
  "run_creates [] recipes = recipes"
| "run_creates ((x, t, c) # reqs) recipes =
     run_creates reqs (snd (mem_NewRecipeHandler x t c recipes))"

definition stored_record :: "string \<times> int \<times> string Context \<Rightarrow> string Recipe list" where
  "stored_record q =
     (case q of (x, t, c) \<Rightarrow>
        (case ShouldBindJSON c of
           Inl err \<Rightarrow> []
         | Inr b \<Rightarrow> [b\<lparr>ID := x, PublishedAt := t\<rparr>]))"

definition pasta :: "string Recipe" where
  "pasta = \<lparr>ID = ''c9k2pasta'', Name = ''Pasta'', Tags = [''italian'', ''dinner''],
            Ingredients = [''flour'', ''eggs''], Instructions = [''knead'', ''boil''],
            PublishedAt = 1700000000\<rparr>"

definition pasta_doc :: "ObjectID Recipe" where
  "pasta_doc = \<lparr>ID = [0x5f, 0x1d, 0x7f, 0x3e, 0x8b, 0x0c, 0x4a, 0x2d, 0x9c, 0x6e, 0x1a, 0x77],
                Name = ''Pasta'', Tags = [''italian'', ''dinner''],
                Ingredients = [''flour'', ''eggs''], Instructions = [''knead'', ''boil''],
                PublishedAt = 1700000000000000\<rparr>"

definition soup :: "string Recipe" where
  "soup = \<lparr>ID = [], Name = ''Soup'', Tags = [''dinner''], Ingredients = [''water''],
           Instructions = [''boil''], PublishedAt = 0\<rparr>"

definition soup_doc :: "ObjectID Recipe" where
  "soup_doc = \<lparr>ID = [], Name = ''Soup'', Tags = [''dinner''], Ingredients = [''water''],
               Instructions = [''boil''], PublishedAt = 0\<rparr>"

text \<open>
  Contexts of sample requests: a search for a tag, a request that names an identifier
  and has no body, and one that names an identifier and carries a recipe.
\<close>

definition get_tag :: "string \<Rightarrow> 'id Context" where
  "get_tag t = \<lparr>Param_id = [], Query_tag = t, ShouldBindJSON = Inl ''EOF''\<rparr>"

definition delete_id :: "string \<Rightarrow> 'id Context" where
  "delete_id s = \<lparr>Param_id = s, Query_tag = [], ShouldBindJSON = Inl ''EOF''\<rparr>"

definition put_recipe :: "string \<Rightarrow> 'id Recipe \<Rightarrow> 'id Context" where
  "put_recipe s r = \<lparr>Param_id = s, Query_tag = [], ShouldBindJSON = Inr r\<rparr>"

text \<open>
  The context of a request whose body is the JSON object \<open>{}\<close>. No field of
  \<open>Recipe\<close> carries a \<open>binding\<close> tag in either variant, so the decoder reports no
  error for it and leaves every field of the struct at its zero value;
  \<open>NilObjectID\<close> is the zero value of \<open>primitive.ObjectID\<close>.
\<close>

definition NilObjectID :: ObjectID where
  "NilObjectID = replicate 12 0"

definition zero_Recipe :: "'id \<Rightarrow> 'id Recipe" where
  "zero_Recipe z = \<lparr>ID = z, Name = [], Tags = [], Ingredients = [], Instructions = [],
                     PublishedAt = 0\<rparr>"

definition empty_object :: "string \<Rightarrow> 'id \<Rightarrow> 'id Context" where
  "empty_object s z = \<lparr>Param_id = s, Query_tag = [], ShouldBindJSON = Inr (zero_Recipe z)\<rparr>"

text \<open>
  A handler table that only counts its invocations in the backend, and a request for
  the delete route with a given session token.
\<close>

definition counting_handlers :: "nat handlers" where
  "counting_handlers h params req sv =
     (JSON StatusOK (Message ''handled''), sv\<lparr>backend := Suc (backend sv)\<rparr>)"

definition delete_request :: "string option \<Rightarrow> request" where
  "delete_request tok =
     \<lparr>Method = DELETE, Path = [''recipes'', ''5f1d7f3e8b0c4a2d9c6e1a77''], Token = tok\<rparr>"

section \<open>Create\<close>

text \<open>
  What the create handlers do with the identifier and the instant they are handed:
  both overwrite whatever the body carried in these two fields, and the record that
  is stored in memory is the record that is returned. With MongoDB, when the insert
  comes back without an error, the stored document is the returned record with its
  instant cut down to the millisecond.
\<close>

lemma mem_create_uses_server_values:
  "ShouldBindJSON c = Inr b \<Longrightarrow>
     mem_NewRecipeHandler x t c recipes =
       (JSON StatusOK (OneRecipe (b\<lparr>ID := x, PublishedAt := t\<rparr>)),
        recipes @ [b\<lparr>ID := x, PublishedAt := t\<rparr>])"
  by (simp add: mem_NewRecipeHandler_def Let_def)

lemma db_create_uses_server_values:
  "ShouldBindJSON c = Inr b \<Longrightarrow> x \<notin> ID ` set (documents coll) \<Longrightarrow>
     fst (db_NewRecipeHandler x t None c coll)
       = JSON StatusCreated (OneRecipe (b\<lparr>ID := x, PublishedAt := t\<rparr>))
     \<and> documents (snd (db_NewRecipeHandler x t None c coll))
       = documents coll @ [b\<lparr>ID := x, PublishedAt := bson_DateTime t\<rparr>]"
  by (simp add: db_NewRecipeHandler_def InsertOne_def logged_def Let_def)

section \<open>Properties of the in-memory variant\<close>

lemma mem_create_store:
  "snd (mem_NewRecipeHandler x t c recipes) = recipes @ stored_record (x, t, c)"
  by (simp add: mem_NewRecipeHandler_def stored_record_def Let_def split: sum.splits)

lemma run_creates_append: "run_creates reqs recipes = recipes @ concat (map stored_record reqs)"
proof (induction reqs arbitrary: recipes)
  case Nil
  show ?case by simp
next
  case (Cons q reqs)
  obtain x t c where q: "q = (x, t, c)" by (cases q) auto
  show ?case unfolding q by (simp add: Cons.IH mem_create_store)
qed

text \<open>
  C8. In the in-memory variant every successful create appends its record at the end
  of the store and a refused one leaves the store alone, so after any run of create
  requests the list handler answers 200 with the records the store held before,
  followed by the created records in the order of their requests.
\<close>

theorem mem_list_is_insertion_order:
  "mem_ListRecipesHandler c' (run_creates reqs recipes) =
     (JSON StatusOK (RecipeList (recipes @ concat (map stored_record reqs))),
      recipes @ concat (map stored_record reqs))"
  by (simp add: mem_ListRecipesHandler_def run_creates_append)

lemma range_Tags_eq:
  "range_Tags tag r ts results = (if tag \<in> set ts then results @ [r] else results)"
  by (induction ts) auto

lemma range_recipes_eq:
  "range_recipes tag rs results = results @ filter (\<lambda>r. tag \<in> set (Tags r)) rs"
  by (induction rs arbitrary: results) (auto simp: range_Tags_eq)

lemma count_list_filter_le: "count_list (filter P xs) x \<le> count_list xs x"
  by (induction xs) auto

text \<open>
  C9. In the in-memory variant the search handler answers with a sequence in which no
  record occurs more often than it is stored, however many times the searched tag
  occurs among a record's tags: the inner loop stops at the first equal tag.
\<close>

theorem mem_search_at_most_once:
  "\<exists>results. mem_SearchRecipesHandler c recipes = (JSON StatusOK (RecipeList results), recipes)
     \<and> (\<forall>r. count_list results r \<le> count_list recipes r)"
  by (rule exI [of _ "filter (\<lambda>r. Query_tag c \<in> set (Tags r)) recipes"])
     (simp add: mem_SearchRecipesHandler_def range_recipes_eq count_list_filter_le)

lemma range_find_ID_takeWhile:
  "range_find_ID x rs i =
     (if x \<in> ID ` set rs then Some (i + length (takeWhile (\<lambda>r. ID r \<noteq> x) rs)) else None)"
  by (induction rs arbitrary: i) auto

lemma take_drop_first:
  "take (length (takeWhile P xs)) xs @ drop (Suc (length (takeWhile P xs))) xs
     = takeWhile P xs @ drop 1 (dropWhile P xs)"
  by (induction xs) auto

lemma takeWhile_drop_all:
  "\<forall>x \<in> set xs. P x \<Longrightarrow> takeWhile P xs @ drop 1 (dropWhile P xs) = xs"
  by (induction xs) auto

text \<open>
  C10. In the in-memory variant a delete removes at most one record: the store
  afterwards is the records in front of the first one with the given identifier,
  followed by all records behind that first one, later records with the same
  identifier included; it is at most one record shorter.
\<close>

theorem mem_delete_first_only:
  "snd (mem_DeleteRecipeHandler c recipes) =
     takeWhile (\<lambda>r. ID r \<noteq> Param_id c) recipes
       @ drop 1 (dropWhile (\<lambda>r. ID r \<noteq> Param_id c) recipes)
   \<and> length recipes \<le> Suc (length (snd (mem_DeleteRecipeHandler c recipes)))"
proof -
  let ?P = "\<lambda>r. ID r \<noteq> Param_id c"
  have eq: "snd (mem_DeleteRecipeHandler c recipes)
              = takeWhile ?P recipes @ drop 1 (dropWhile ?P recipes)"
  proof (cases "Param_id c \<in> ID ` set recipes")
    case True
    then show ?thesis
      using take_drop_first [of ?P recipes]
      by (simp add: mem_DeleteRecipeHandler_def range_find_ID_takeWhile Let_def)
  next
    case False
    then have "\<forall>r \<in> set recipes. ?P r"
      by (metis imageI)
    then have "takeWhile ?P recipes @ drop 1 (dropWhile ?P recipes) = recipes"
      by (rule takeWhile_drop_all)
    moreover from False have "snd (mem_DeleteRecipeHandler c recipes) = recipes"
      by (simp add: mem_DeleteRecipeHandler_def range_find_ID_takeWhile Let_def)
    ultimately show ?thesis by simp
  qed
  have "length recipes = length (takeWhile ?P recipes) + length (dropWhile ?P recipes)"
    by (metis length_append takeWhile_dropWhile_id)
  then have "length recipes \<le> Suc (length (takeWhile ?P recipes @ drop 1 (dropWhile ?P recipes)))"
    by simp
  with eq show ?thesis by simp
qed

section \<open>Search by tag in both stores\<close>

lemma filter_selects_tags:
  "filter (selects (D_tags t)) ds = filter (\<lambda>r. t \<in> set (Tags r)) ds"
  by (induction ds) auto

text \<open>
  C3. For every store and every tag, the search handler answers 200 with exactly the
  stored recipes whose tags hold an element equal to the tag, in store order: in the
  in-memory variant always, in the MongoDB-backed variant whenever the driver's call
  comes back without an error, and then without changing the documents. When no
  stored recipe matches, the answer is still 200, with the empty sequence.
\<close>

theorem search_by_tag_exact:
  "mem_SearchRecipesHandler c recipes =
     (JSON StatusOK (RecipeList (filter (\<lambda>r. Query_tag c \<in> set (Tags r)) recipes)), recipes)
   \<and> fst (db_SearchRecipesHandler None c' coll) =
       JSON StatusOK (RecipeList (filter (\<lambda>r. Query_tag c' \<in> set (Tags r)) (documents coll)))
   \<and> documents (snd (db_SearchRecipesHandler None c' coll)) = documents coll
   \<and> ((\<forall>r \<in> set recipes. Query_tag c \<notin> set (Tags r)) \<longrightarrow>
        fst (mem_SearchRecipesHandler c recipes) = JSON StatusOK (RecipeList []))
   \<and> ((\<forall>r \<in> set (documents coll). Query_tag c' \<notin> set (Tags r)) \<longrightarrow>
        fst (db_SearchRecipesHandler None c' coll) = JSON StatusOK (RecipeList []))"
proof -
  have m: "mem_SearchRecipesHandler c recipes =
     (JSON StatusOK (RecipeList (filter (\<lambda>r. Query_tag c \<in> set (Tags r)) recipes)), recipes)"
    by (simp add: mem_SearchRecipesHandler_def range_recipes_eq)
  have d: "db_SearchRecipesHandler None c' coll =
     (JSON StatusOK (RecipeList (filter (\<lambda>r. Query_tag c' \<in> set (Tags r)) (documents coll))),
      logged (Call_Find (D_tags (Query_tag c'))) coll)"
    by (simp add: db_SearchRecipesHandler_def Find_def Let_def filter_selects_tags)
  have e1: "(\<forall>r \<in> set recipes. Query_tag c \<notin> set (Tags r)) \<Longrightarrow>
      filter (\<lambda>r. Query_tag c \<in> set (Tags r)) recipes = []"
    by (simp add: filter_empty_conv)
  have e2: "(\<forall>r \<in> set (documents coll). Query_tag c' \<notin> set (Tags r)) \<Longrightarrow>
      filter (\<lambda>r. Query_tag c' \<in> set (Tags r)) (documents coll) = []"
    by (simp add: filter_empty_conv)
  show ?thesis
    using e1 e2 by (simp add: m d logged_def)
qed

theorem search_by_tag_exact_witness:
  "fst (mem_SearchRecipesHandler (get_tag ''dessert'') [pasta]) = JSON StatusOK (RecipeList [])
   \<and> fst (db_SearchRecipesHandler None (get_tag ''dessert'') \<lparr>documents = [pasta_doc], calls = []\<rparr>)
       = JSON StatusOK (RecipeList [])
   \<and> fst (mem_SearchRecipesHandler (get_tag ''italian'') [pasta]) = JSON StatusOK (RecipeList [pasta])"
proof -
  have h1: "\<forall>r \<in> set [pasta]. Query_tag (get_tag ''dessert'' :: string Context) \<notin> set (Tags r)"
    by (simp add: pasta_def get_tag_def)
  have h2: "\<forall>r \<in> set (documents \<lparr>documents = [pasta_doc], calls = []\<rparr>).
              Query_tag (get_tag ''dessert'' :: ObjectID Context) \<notin> set (Tags r)"
    by (simp add: pasta_doc_def get_tag_def)
  have t: "Query_tag (get_tag ''italian'' :: string Context) \<in> set (Tags pasta)"
    by (simp add: pasta_def get_tag_def)
  from search_by_tag_exact [of "get_tag ''dessert''" "[pasta]" "get_tag ''dessert''"
      "\<lparr>documents = [pasta_doc], calls = []\<rparr>"] h1 h2
  have a: "fst (mem_SearchRecipesHandler (get_tag ''dessert'') [pasta]) = JSON StatusOK (RecipeList [])"
    and b: "fst (db_SearchRecipesHandler None (get_tag ''dessert'')
               \<lparr>documents = [pasta_doc], calls = []\<rparr>) = JSON StatusOK (RecipeList [])"
    by blast+
  from search_by_tag_exact [of "get_tag ''italian''" "[pasta]" "get_tag ''dessert''"
      "\<lparr>documents = [pasta_doc], calls = []\<rparr>"] t
  have c: "fst (mem_SearchRecipesHandler (get_tag ''italian'') [pasta])
             = JSON StatusOK (RecipeList [pasta])"
    by simp
  from a b c show ?thesis by simp
qed

section \<open>Delete\<close>

lemma first_selected_M_id: "first_selected (M_id x) ds i = range_find_ID x ds i"
  by (induction ds arbitrary: i) auto

lemma first_position:
  "x \<in> ID ` set rs \<Longrightarrow>
     length (takeWhile (\<lambda>r. ID r \<noteq> x) rs) < length rs
     \<and> ID (rs ! length (takeWhile (\<lambda>r. ID r \<noteq> x) rs)) = x"
  by (induction rs) auto

lemma mem_delete_found:
  "Param_id c \<in> ID ` set recipes \<Longrightarrow>
     mem_DeleteRecipeHandler c recipes =
       (JSON StatusOK (Message ''recipe deleted''),
        take (length (takeWhile (\<lambda>r. ID r \<noteq> Param_id c) recipes)) recipes
          @ drop (Suc (length (takeWhile (\<lambda>r. ID r \<noteq> Param_id c) recipes))) recipes)"
  by (simp add: mem_DeleteRecipeHandler_def range_find_ID_takeWhile Let_def)

lemma mem_delete_not_found:
  "Param_id c \<notin> ID ` set recipes \<Longrightarrow>
     mem_DeleteRecipeHandler c recipes =
       (JSON StatusNotFound (ErrorMsg ''recipe not found''), recipes)"
  by (simp add: mem_DeleteRecipeHandler_def range_find_ID_takeWhile Let_def)

lemma db_delete_found:
  "ObjectIDFromHex (Param_id c) = Inr x \<Longrightarrow> x \<in> ID ` set (documents coll) \<Longrightarrow>
     db_DeleteRecipeHandler None c coll =
       (JSON StatusOK (DeletedMsg ''Recipe successfully deleted'' 1),
        (logged (Call_DeleteOne (M_id x)) coll)
          \<lparr>documents :=
             take (length (takeWhile (\<lambda>r. ID r \<noteq> x) (documents coll))) (documents coll)
             @ drop (Suc (length (takeWhile (\<lambda>r. ID r \<noteq> x) (documents coll)))) (documents coll)\<rparr>)"
  by (simp add: db_DeleteRecipeHandler_def DeleteOne_def first_selected_M_id
      range_find_ID_takeWhile Let_def)

lemma db_delete_not_found:
  "ObjectIDFromHex (Param_id c) = Inr x \<Longrightarrow> x \<notin> ID ` set (documents coll) \<Longrightarrow>
     db_DeleteRecipeHandler None c coll =
       (JSON StatusNotFound (ErrorMsg ''Recipe not found''), logged (Call_DeleteOne (M_id x)) coll)"
  by (simp add: db_DeleteRecipeHandler_def DeleteOne_def first_selected_M_id
      range_find_ID_takeWhile Let_def)

lemma db_delete_store_failure:
  "ObjectIDFromHex (Param_id c) = Inr x \<Longrightarrow>
     fst (db_DeleteRecipeHandler (Some e) c coll)
       = JSON StatusInternalServerError (ErrorMsg ''Failed to delete recipe'')"
  by (simp add: db_DeleteRecipeHandler_def DeleteOne_def Let_def)

lemma db_delete_bad_id:
  "ObjectIDFromHex (Param_id c) = Inl e \<Longrightarrow>
     db_DeleteRecipeHandler io c coll = (JSON StatusBadRequest (ErrorMsg e), coll)"
  by (simp add: db_DeleteRecipeHandler_def Let_def)

lemma hex_DecodeString_Inr:
  "(\<exists>b. hex_DecodeString s = Inr b)
     \<longleftrightarrow> even (length s) \<and> (\<forall>ch \<in> set s. fromHexChar ch \<noteq> None)"
  by (induction s rule: hex_DecodeString.induct) (auto split: option.splits sum.splits)

lemma ObjectIDFromHex_format:
  "(\<exists>x. ObjectIDFromHex s = Inr x)
     \<longleftrightarrow> length s = 24 \<and> (\<forall>ch \<in> set s. fromHexChar ch \<noteq> None)"
proof (cases "length s = 24")
  case True
  then have "even (length s)" by simp
  with True hex_DecodeString_Inr [of s] show ?thesis
    by (auto simp: ObjectIDFromHex_def split: sum.splits)
next
  case False
  then show ?thesis by (simp add: ObjectIDFromHex_def)
qed

lemma pasta_doc_parse: "ObjectIDFromHex ''5f1d7f3e8b0c4a2d9c6e1a77'' = Inr (ID pasta_doc)"
  by (simp add: ObjectIDFromHex_def pasta_doc_def fromHexChar_def)

lemma other_id_parse:
  "ObjectIDFromHex ''5f1d7f3e8b0c4a2d9c6e1a78''
     = Inr [0x5f, 0x1d, 0x7f, 0x3e, 0x8b, 0x0c, 0x4a, 0x2d, 0x9c, 0x6e, 0x1a, 0x78]"
  by (simp add: ObjectIDFromHex_def fromHexChar_def)

text \<open>
  C4 as worded fails in the MongoDB-backed variant: a delete whose path
  identifier is not 24 hexadecimal digits names no stored recipe and removes nothing,
  and the handler answers 400, not 404, before it calls the driver.
\<close>

theorem delete_malformed_id_answers_400:
  "db_DeleteRecipeHandler None (delete_id ''xyz'') \<lparr>documents = [pasta_doc], calls = []\<rparr>
     = (JSON StatusBadRequest (ErrorMsg ''the provided hex string is not a valid ObjectID''),
        \<lparr>documents = [pasta_doc], calls = []\<rparr>)
   \<and> status (fst (db_DeleteRecipeHandler None (delete_id ''xyz'')
                 \<lparr>documents = [pasta_doc], calls = []\<rparr>)) \<noteq> StatusNotFound"
  by (simp add: db_DeleteRecipeHandler_def delete_id_def ObjectIDFromHex_def JSON_def)

text \<open>
  C4, amended. For every delete request whose identifier is well formed for the
  variant (any string in memory, 24 hexadecimal digits with MongoDB) and whose driver
  call, if any, comes back without an error: when no stored recipe has the
  identifier, the handler answers 404 and the stored records are as before; when one
  has it, the handler answers 200 and the store afterwards is the store before with
  exactly one position removed, a position that held a record with that identifier.
  An identifier \<open>ObjectIDFromHex\<close> refuses (by \<open>ObjectIDFromHex_format\<close>: anything
  but 24 hexadecimal digits) is answered 400 with the collection as it was, its log
  of driver calls included, whatever the driver's round trip would have given.
\<close>

theorem delete_found_or_not_found:
  "(Param_id c \<notin> ID ` set recipes \<longrightarrow>
      mem_DeleteRecipeHandler c recipes
        = (JSON StatusNotFound (ErrorMsg ''recipe not found''), recipes))
   \<and> (Param_id c \<in> ID ` set recipes \<longrightarrow>
        status (fst (mem_DeleteRecipeHandler c recipes)) = StatusOK
        \<and> (\<exists>i < length recipes. ID (recipes ! i) = Param_id c
              \<and> snd (mem_DeleteRecipeHandler c recipes) = take i recipes @ drop (Suc i) recipes))
   \<and> (ObjectIDFromHex (Param_id c') = Inr x \<and> x \<notin> ID ` set (documents coll) \<longrightarrow>
        fst (db_DeleteRecipeHandler None c' coll) = JSON StatusNotFound (ErrorMsg ''Recipe not found'')
        \<and> documents (snd (db_DeleteRecipeHandler None c' coll)) = documents coll)
   \<and> (ObjectIDFromHex (Param_id c') = Inr x \<and> x \<in> ID ` set (documents coll) \<longrightarrow>
        status (fst (db_DeleteRecipeHandler None c' coll)) = StatusOK
        \<and> (\<exists>i < length (documents coll). ID (documents coll ! i) = x
              \<and> documents (snd (db_DeleteRecipeHandler None c' coll))
                  = take i (documents coll) @ drop (Suc i) (documents coll)))
   \<and> (ObjectIDFromHex (Param_id c') = Inl e \<longrightarrow>
        db_DeleteRecipeHandler io c' coll = (JSON StatusBadRequest (ErrorMsg e), coll))"
proof (intro conjI impI)
  assume "Param_id c \<notin> ID ` set recipes"
  then show "mem_DeleteRecipeHandler c recipes
        = (JSON StatusNotFound (ErrorMsg ''recipe not found''), recipes)"
    by (rule mem_delete_not_found)
next
  assume "Param_id c \<in> ID ` set recipes"
  then show "status (fst (mem_DeleteRecipeHandler c recipes)) = StatusOK"
    by (simp add: mem_delete_found JSON_def)
next
  assume a: "Param_id c \<in> ID ` set recipes"
  show "\<exists>i < length recipes. ID (recipes ! i) = Param_id c
              \<and> snd (mem_DeleteRecipeHandler c recipes) = take i recipes @ drop (Suc i) recipes"
    using first_position [OF a] by (auto simp: mem_delete_found [OF a])
next
  assume "ObjectIDFromHex (Param_id c') = Inr x \<and> x \<notin> ID ` set (documents coll)"
  then show "fst (db_DeleteRecipeHandler None c' coll)
               = JSON StatusNotFound (ErrorMsg ''Recipe not found'')"
    by (simp add: db_delete_not_found)
next
  assume "ObjectIDFromHex (Param_id c') = Inr x \<and> x \<notin> ID ` set (documents coll)"
  then show "documents (snd (db_DeleteRecipeHandler None c' coll)) = documents coll"
    by (simp add: db_delete_not_found logged_def)
next
  assume "ObjectIDFromHex (Param_id c') = Inr x \<and> x \<in> ID ` set (documents coll)"
  then show "status (fst (db_DeleteRecipeHandler None c' coll)) = StatusOK"
    by (simp add: db_delete_found JSON_def)
next
  assume "ObjectIDFromHex (Param_id c') = Inr x \<and> x \<in> ID ` set (documents coll)"
  then have a: "ObjectIDFromHex (Param_id c') = Inr x" and b: "x \<in> ID ` set (documents coll)"
    by simp_all
  show "\<exists>i < length (documents coll). ID (documents coll ! i) = x
              \<and> documents (snd (db_DeleteRecipeHandler None c' coll))
                  = take i (documents coll) @ drop (Suc i) (documents coll)"
    using first_position [OF b] by (auto simp: db_delete_found [OF a b])
next
  assume "ObjectIDFromHex (Param_id c') = Inl e"
  then show "db_DeleteRecipeHandler io c' coll = (JSON StatusBadRequest (ErrorMsg e), coll)"
    by (rule db_delete_bad_id)
qed

theorem delete_found_or_not_found_witness:
  "mem_DeleteRecipeHandler (delete_id ''zzz'') [pasta]
     = (JSON StatusNotFound (ErrorMsg ''recipe not found''), [pasta])
   \<and> status (fst (mem_DeleteRecipeHandler (delete_id ''c9k2pasta'') [pasta])) = StatusOK
   \<and> snd (mem_DeleteRecipeHandler (delete_id ''c9k2pasta'') [pasta]) = []
   \<and> fst (db_DeleteRecipeHandler None (delete_id ''5f1d7f3e8b0c4a2d9c6e1a78'')
            \<lparr>documents = [pasta_doc], calls = []\<rparr>)
       = JSON StatusNotFound (ErrorMsg ''Recipe not found'')
   \<and> documents (snd (db_DeleteRecipeHandler None (delete_id ''5f1d7f3e8b0c4a2d9c6e1a78'')
            \<lparr>documents = [pasta_doc], calls = []\<rparr>)) = [pasta_doc]
   \<and> status (fst (db_DeleteRecipeHandler None (delete_id ''5f1d7f3e8b0c4a2d9c6e1a77'')
            \<lparr>documents = [pasta_doc], calls = []\<rparr>)) = StatusOK
   \<and> documents (snd (db_DeleteRecipeHandler None (delete_id ''5f1d7f3e8b0c4a2d9c6e1a77'')
            \<lparr>documents = [pasta_doc], calls = []\<rparr>)) = []
   \<and> db_DeleteRecipeHandler (Some ''connection refused'') (delete_id ''5f1d7f3e8b0c4a2d9c6e1a7g'')
            \<lparr>documents = [pasta_doc], calls = []\<rparr>
       = (JSON StatusBadRequest (ErrorMsg (InvalidByteError CHR ''g'')),
          \<lparr>documents = [pasta_doc], calls = []\<rparr>)"
proof -
  let ?coll = "\<lparr>documents = [pasta_doc], calls = []\<rparr>"
  have bad: "ObjectIDFromHex (Param_id (delete_id ''5f1d7f3e8b0c4a2d9c6e1a7g'' :: ObjectID Context))
               = Inl (InvalidByteError CHR ''g'')"
    by (simp add: delete_id_def ObjectIDFromHex_def fromHexChar_def)
  from delete_found_or_not_found [of _ _ "delete_id ''5f1d7f3e8b0c4a2d9c6e1a7g''" _ ?coll
      "InvalidByteError CHR ''g''" "Some ''connection refused''"] bad
  have h: "db_DeleteRecipeHandler (Some ''connection refused'')
             (delete_id ''5f1d7f3e8b0c4a2d9c6e1a7g'') ?coll
             = (JSON StatusBadRequest (ErrorMsg (InvalidByteError CHR ''g'')), ?coll)"
    by blast
  let ?other = "[0x5f, 0x1d, 0x7f, 0x3e, 0x8b, 0x0c, 0x4a, 0x2d, 0x9c, 0x6e, 0x1a, 0x78] :: ObjectID"
  have m0: "Param_id (delete_id ''zzz'' :: string Context) \<notin> ID ` set [pasta]"
    by (simp add: delete_id_def pasta_def)
  have m1: "Param_id (delete_id ''c9k2pasta'' :: string Context) \<in> ID ` set [pasta]"
    by (simp add: delete_id_def pasta_def)
  have d0: "ObjectIDFromHex (Param_id (delete_id ''5f1d7f3e8b0c4a2d9c6e1a78'' :: ObjectID Context))
              = Inr ?other \<and> ?other \<notin> ID ` set (documents ?coll)"
    by (simp add: delete_id_def other_id_parse) (simp add: pasta_doc_def)
  have d1: "ObjectIDFromHex (Param_id (delete_id ''5f1d7f3e8b0c4a2d9c6e1a77'' :: ObjectID Context))
              = Inr (ID pasta_doc) \<and> ID pasta_doc \<in> ID ` set (documents ?coll)"
    by (simp add: delete_id_def pasta_doc_parse)
  from delete_found_or_not_found [of "delete_id ''zzz''" "[pasta]"
      "delete_id ''5f1d7f3e8b0c4a2d9c6e1a78''" ?other ?coll] m0 d0
  have a: "mem_DeleteRecipeHandler (delete_id ''zzz'') [pasta]
             = (JSON StatusNotFound (ErrorMsg ''recipe not found''), [pasta])"
    and b: "fst (db_DeleteRecipeHandler None (delete_id ''5f1d7f3e8b0c4a2d9c6e1a78'') ?coll)
             = JSON StatusNotFound (ErrorMsg ''Recipe not found'')"
    and c: "documents (snd (db_DeleteRecipeHandler None (delete_id ''5f1d7f3e8b0c4a2d9c6e1a78'')
             ?coll)) = [pasta_doc]"
    by simp_all
  from delete_found_or_not_found [of "delete_id ''c9k2pasta''" "[pasta]"
      "delete_id ''5f1d7f3e8b0c4a2d9c6e1a77''" "ID pasta_doc" ?coll] m1 d1
  have d: "status (fst (mem_DeleteRecipeHandler (delete_id ''c9k2pasta'') [pasta])) = StatusOK"
    and e: "snd (mem_DeleteRecipeHandler (delete_id ''c9k2pasta'') [pasta]) = []"
    and f: "status (fst (db_DeleteRecipeHandler None (delete_id ''5f1d7f3e8b0c4a2d9c6e1a77'') ?coll))
             = StatusOK"
    and g: "documents (snd (db_DeleteRecipeHandler None (delete_id ''5f1d7f3e8b0c4a2d9c6e1a77'')
             ?coll)) = []"
    by auto
  from a b c d e f g h show ?thesis by simp
qed

section \<open>Update\<close>

lemma mem_update_not_found:
  "ShouldBindJSON c = Inr r \<Longrightarrow> Param_id c \<notin> ID ` set recipes \<Longrightarrow>
     mem_UpdateRecipeHandler c recipes
       = (JSON StatusNotFound (ErrorMsg ''recipe not found''), recipes)"
  by (simp add: mem_UpdateRecipeHandler_def range_find_ID_takeWhile Let_def)

lemma db_update_absent_id:
  "ObjectIDFromHex (Param_id c) = Inr x \<Longrightarrow> ShouldBindJSON c = Inr r \<Longrightarrow>
   x \<notin> ID ` set (documents coll) \<Longrightarrow>
     db_UpdateRecipeHandler None c coll =
       (JSON StatusOK (Message ''Recipehas been updated''), logged (Call_UpdateOne (M_id x)) coll)"
  by (simp add: db_UpdateRecipeHandler_def UpdateOne_def first_selected_M_id
      range_find_ID_takeWhile Let_def)

text \<open>
  C1 does not hold of the MongoDB-backed variant. Its update handler drops the result
  of \<open>UpdateOne\<close>, so a well-formed identifier that no stored recipe has is answered
  with 200 and the message of a successful update; the driver was called, found
  nothing, and the documents are as before. (The in-memory handler answers 404 there,
  lemma \<open>mem_update_not_found\<close>; the general statement for this variant is lemma
  \<open>db_update_absent_id\<close>.)
\<close>

theorem db_update_absent_id_answers_200:
  "db_UpdateRecipeHandler None (put_recipe ''5f1d7f3e8b0c4a2d9c6e1a78'' soup_doc)
       \<lparr>documents = [pasta_doc], calls = []\<rparr>
     = (JSON StatusOK (Message ''Recipehas been updated''),
        \<lparr>documents = [pasta_doc],
         calls = [Call_UpdateOne
                    (M_id [0x5f, 0x1d, 0x7f, 0x3e, 0x8b, 0x0c, 0x4a, 0x2d, 0x9c, 0x6e, 0x1a, 0x78])]\<rparr>)"
proof -
  have "ObjectIDFromHex (Param_id (put_recipe ''5f1d7f3e8b0c4a2d9c6e1a78'' soup_doc))
          = Inr [0x5f, 0x1d, 0x7f, 0x3e, 0x8b, 0x0c, 0x4a, 0x2d, 0x9c, 0x6e, 0x1a, 0x78]"
    by (simp add: put_recipe_def other_id_parse)
  moreover have "ShouldBindJSON (put_recipe ''5f1d7f3e8b0c4a2d9c6e1a78'' soup_doc) = Inr soup_doc"
    by (simp add: put_recipe_def)
  moreover have "[0x5f, 0x1d, 0x7f, 0x3e, 0x8b, 0x0c, 0x4a, 0x2d, 0x9c, 0x6e, 0x1a, 0x78]
                   \<notin> ID ` set (documents \<lparr>documents = [pasta_doc], calls = []\<rparr>)"
    by (simp add: pasta_doc_def)
  ultimately show ?thesis
    by (simp add: db_update_absent_id logged_def)
qed

lemma map_update_same: "(map f xs)[i := f (xs ! i)] = map f xs"
  by (metis list_update_id map_update)

lemma db_update_keeps_id_and_time:
  "map ID (documents (snd (db_UpdateRecipeHandler io c coll))) = map ID (documents coll)
   \<and> map PublishedAt (documents (snd (db_UpdateRecipeHandler io c coll)))
       = map PublishedAt (documents coll)"
  by (auto simp: db_UpdateRecipeHandler_def UpdateOne_def Let_def logged_def apply_set_def
      map_update map_update_same
      split: sum.splits option.splits prod.splits)

text \<open>
  C2 does not hold of the in-memory variant. Its update handler assigns the decoded
  body to the slot of the record, \<open>recipes[i] = recipe\<close>, identifier and publication
  time included: a body that carries neither leaves the stored record with the empty
  identifier and the zero time. (The MongoDB-backed handler sets the four content
  fields only, lemma \<open>db_update_keeps_id_and_time\<close>.)
\<close>

theorem mem_update_overwrites_id_and_time:
  "mem_UpdateRecipeHandler (put_recipe ''c9k2pasta'' soup) [pasta]
     = (JSON StatusOK (OneRecipe soup), [soup])
   \<and> ID pasta = ''c9k2pasta'' \<and> PublishedAt pasta = 1700000000
   \<and> ID soup = [] \<and> PublishedAt soup = 0"
  by (simp add: mem_UpdateRecipeHandler_def put_recipe_def pasta_def soup_def)

section \<open>Requests refused before the store\<close>

text \<open>
  C6 as worded fails: it counts a body with a missing field among the bodies that
  are refused. The body \<open>{}\<close> lacks every field, and it is decoded without an
  error: the in-memory create handler answers 200 and appends the record, and the
  MongoDB-backed update handler calls \<open>UpdateOne\<close>, which overwrites the four
  content fields of the stored recipe with empty values, and answers 200.
\<close>

theorem missing_fields_reach_store:
  "mem_NewRecipeHandler ''c9k3soup'' 1700000001 (empty_object [] []) [pasta]
     = (JSON StatusOK
          (OneRecipe \<lparr>ID = ''c9k3soup'', Name = [], Tags = [], Ingredients = [],
                      Instructions = [], PublishedAt = 1700000001\<rparr>),
        [pasta, \<lparr>ID = ''c9k3soup'', Name = [], Tags = [], Ingredients = [],
                  Instructions = [], PublishedAt = 1700000001\<rparr>])
   \<and> db_UpdateRecipeHandler None (empty_object ''5f1d7f3e8b0c4a2d9c6e1a77'' NilObjectID)
         \<lparr>documents = [pasta_doc], calls = []\<rparr>
     = (JSON StatusOK (Message ''Recipehas been updated''),
        \<lparr>documents = [pasta_doc\<lparr>Name := [], Tags := [], Ingredients := [], Instructions := []\<rparr>],
         calls = [Call_UpdateOne (M_id (ID pasta_doc))]\<rparr>)"
proof -
  have m: "mem_NewRecipeHandler ''c9k3soup'' 1700000001 (empty_object [] []) [pasta]
     = (JSON StatusOK
          (OneRecipe \<lparr>ID = ''c9k3soup'', Name = [], Tags = [], Ingredients = [],
                      Instructions = [], PublishedAt = 1700000001\<rparr>),
        [pasta, \<lparr>ID = ''c9k3soup'', Name = [], Tags = [], Ingredients = [],
                  Instructions = [], PublishedAt = 1700000001\<rparr>])"
    by (simp add: mem_NewRecipeHandler_def empty_object_def zero_Recipe_def Let_def)
  have p: "ObjectIDFromHex (Param_id (empty_object ''5f1d7f3e8b0c4a2d9c6e1a77'' NilObjectID))
             = Inr (ID pasta_doc)"
    by (simp add: empty_object_def pasta_doc_parse)
  have q: "ShouldBindJSON (empty_object ''5f1d7f3e8b0c4a2d9c6e1a77'' NilObjectID)
             = Inr (zero_Recipe NilObjectID)"
    by (simp add: empty_object_def)
  have d: "db_UpdateRecipeHandler None (empty_object ''5f1d7f3e8b0c4a2d9c6e1a77'' NilObjectID)
         \<lparr>documents = [pasta_doc], calls = []\<rparr>
     = (JSON StatusOK (Message ''Recipehas been updated''),
        \<lparr>documents = [pasta_doc\<lparr>Name := [], Tags := [], Ingredients := [], Instructions := []\<rparr>],
         calls = [Call_UpdateOne (M_id (ID pasta_doc))]\<rparr>)"
    by (simp add: db_UpdateRecipeHandler_def p q UpdateOne_def logged_def apply_set_def Let_def
        zero_Recipe_def pasta_doc_def)
  from m d show ?thesis by simp
qed

text \<open>
  C6, amended. A request whose body the decoder refuses (\<open>ShouldBindJSON\<close> returns
  an error; a missing field is no error, no field being required) is answered 400 by
  the create and update handlers of both variants, and a request whose path
  identifier \<open>ObjectIDFromHex\<close> refuses (by \<open>ObjectIDFromHex_format\<close>: anything but
  24 hexadecimal digits) is answered 400 by the update and delete handlers of the
  MongoDB-backed variant. In each case the store comes back as it was; for the
  collection this includes the log of driver calls, so the driver was not called,
  whatever its round trip would have given. These are the only requests the
  handlers stop: a decoded body is stored by the in-memory create handler and is not
  answered 400 by the in-memory update handler, and with MongoDB a decoded body and
  a well-formed identifier make each handler call the driver once.
\<close>

theorem refused_requests_never_reach_store:
  "(ShouldBindJSON c = Inl err \<longrightarrow>
      mem_NewRecipeHandler x t c recipes = (JSON StatusBadRequest (ErrorMsg err), recipes)
      \<and> mem_UpdateRecipeHandler c recipes = (JSON StatusBadRequest (ErrorMsg err), recipes))
   \<and> (ShouldBindJSON c' = Inl err \<longrightarrow>
        db_NewRecipeHandler x' t io c' coll = (JSON StatusBadRequest (ErrorMsg err), coll)
        \<and> status (fst (db_UpdateRecipeHandler io c' coll)) = StatusBadRequest
        \<and> snd (db_UpdateRecipeHandler io c' coll) = coll)
   \<and> (ObjectIDFromHex (Param_id c') = Inl err' \<longrightarrow>
        db_UpdateRecipeHandler io c' coll = (JSON StatusBadRequest (ErrorMsg err'), coll)
        \<and> db_DeleteRecipeHandler io c' coll = (JSON StatusBadRequest (ErrorMsg err'), coll))
   \<and> (ShouldBindJSON c = Inr b \<longrightarrow>
        mem_NewRecipeHandler x t c recipes
          = (JSON StatusOK (OneRecipe (b\<lparr>ID := x, PublishedAt := t\<rparr>)),
             recipes @ [b\<lparr>ID := x, PublishedAt := t\<rparr>])
        \<and> status (fst (mem_UpdateRecipeHandler c recipes)) \<noteq> StatusBadRequest)
   \<and> (ShouldBindJSON c' = Inr b' \<longrightarrow>
        calls (snd (db_NewRecipeHandler x' t io c' coll))
          = calls coll @ [Call_InsertOne (b'\<lparr>ID := x', PublishedAt := t\<rparr>)])
   \<and> (ObjectIDFromHex (Param_id c') = Inr y \<and> ShouldBindJSON c' = Inr b' \<longrightarrow>
        calls (snd (db_UpdateRecipeHandler io c' coll)) = calls coll @ [Call_UpdateOne (M_id y)])
   \<and> (ObjectIDFromHex (Param_id c') = Inr y \<longrightarrow>
        calls (snd (db_DeleteRecipeHandler io c' coll)) = calls coll @ [Call_DeleteOne (M_id y)])"
proof -
  have refused:
    "(ShouldBindJSON c = Inl err \<longrightarrow>
      mem_NewRecipeHandler x t c recipes = (JSON StatusBadRequest (ErrorMsg err), recipes)
      \<and> mem_UpdateRecipeHandler c recipes = (JSON StatusBadRequest (ErrorMsg err), recipes))
   \<and> (ShouldBindJSON c' = Inl err \<longrightarrow>
        db_NewRecipeHandler x' t io c' coll = (JSON StatusBadRequest (ErrorMsg err), coll)
        \<and> status (fst (db_UpdateRecipeHandler io c' coll)) = StatusBadRequest
        \<and> snd (db_UpdateRecipeHandler io c' coll) = coll)
   \<and> (ObjectIDFromHex (Param_id c') = Inl err' \<longrightarrow>
        db_UpdateRecipeHandler io c' coll = (JSON StatusBadRequest (ErrorMsg err'), coll)
        \<and> db_DeleteRecipeHandler io c' coll = (JSON StatusBadRequest (ErrorMsg err'), coll))"
    by (simp add: mem_NewRecipeHandler_def mem_UpdateRecipeHandler_def db_NewRecipeHandler_def
        db_UpdateRecipeHandler_def db_DeleteRecipeHandler_def Let_def JSON_def split: sum.splits)
  have mem_passed:
    "ShouldBindJSON c = Inr b \<longrightarrow>
        mem_NewRecipeHandler x t c recipes
          = (JSON StatusOK (OneRecipe (b\<lparr>ID := x, PublishedAt := t\<rparr>)),
             recipes @ [b\<lparr>ID := x, PublishedAt := t\<rparr>])
        \<and> status (fst (mem_UpdateRecipeHandler c recipes)) \<noteq> StatusBadRequest"
    by (simp add: mem_NewRecipeHandler_def mem_UpdateRecipeHandler_def Let_def JSON_def
        split: option.splits)
  have db_create_passed:
    "ShouldBindJSON c' = Inr b' \<longrightarrow>
        calls (snd (db_NewRecipeHandler x' t io c' coll))
          = calls coll @ [Call_InsertOne (b'\<lparr>ID := x', PublishedAt := t\<rparr>)]"
    by (simp add: db_NewRecipeHandler_def InsertOne_def logged_def Let_def split: option.splits)
  have db_update_passed:
    "ObjectIDFromHex (Param_id c') = Inr y \<and> ShouldBindJSON c' = Inr b' \<longrightarrow>
        calls (snd (db_UpdateRecipeHandler io c' coll)) = calls coll @ [Call_UpdateOne (M_id y)]"
    by (simp add: db_UpdateRecipeHandler_def UpdateOne_def logged_def Let_def split: option.splits)
  have db_delete_passed:
    "ObjectIDFromHex (Param_id c') = Inr y \<longrightarrow>
        calls (snd (db_DeleteRecipeHandler io c' coll)) = calls coll @ [Call_DeleteOne (M_id y)]"
    by (simp add: db_DeleteRecipeHandler_def DeleteOne_def logged_def Let_def split: option.splits)
  from refused mem_passed db_create_passed db_update_passed db_delete_passed
  show ?thesis by blast
qed

theorem refused_requests_never_reach_store_witness:
  "mem_NewRecipeHandler ''c9k3soup'' 1700000001 (delete_id ''xyz'') [pasta]
     = (JSON StatusBadRequest (ErrorMsg ''EOF''), [pasta])
   \<and> mem_UpdateRecipeHandler (delete_id ''xyz'') [pasta]
     = (JSON StatusBadRequest (ErrorMsg ''EOF''), [pasta])
   \<and> db_NewRecipeHandler [] 1700000001 None (delete_id ''xyz'') \<lparr>documents = [pasta_doc], calls = []\<rparr>
     = (JSON StatusBadRequest (ErrorMsg ''EOF''), \<lparr>documents = [pasta_doc], calls = []\<rparr>)
   \<and> db_UpdateRecipeHandler None (delete_id ''xyz'') \<lparr>documents = [pasta_doc], calls = []\<rparr>
     = (JSON StatusBadRequest (ErrorMsg ''the provided hex string is not a valid ObjectID''),
        \<lparr>documents = [pasta_doc], calls = []\<rparr>)
   \<and> db_DeleteRecipeHandler None (delete_id ''xyz'') \<lparr>documents = [pasta_doc], calls = []\<rparr>
     = (JSON StatusBadRequest (ErrorMsg ''the provided hex string is not a valid ObjectID''),
        \<lparr>documents = [pasta_doc], calls = []\<rparr>)
   \<and> mem_NewRecipeHandler ''c9k3soup'' 1700000001 (put_recipe [] soup) [pasta]
     = (JSON StatusOK (OneRecipe (soup\<lparr>ID := ''c9k3soup'', PublishedAt := 1700000001\<rparr>)),
        [pasta, soup\<lparr>ID := ''c9k3soup'', PublishedAt := 1700000001\<rparr>])
   \<and> calls (snd (db_NewRecipeHandler NilObjectID 1700000001 None
                    (put_recipe ''5f1d7f3e8b0c4a2d9c6e1a77'' soup_doc)
                    \<lparr>documents = [pasta_doc], calls = []\<rparr>))
     = [Call_InsertOne (soup_doc\<lparr>ID := NilObjectID, PublishedAt := 1700000001\<rparr>)]
   \<and> calls (snd (db_UpdateRecipeHandler None (put_recipe ''5f1d7f3e8b0c4a2d9c6e1a77'' soup_doc)
                    \<lparr>documents = [pasta_doc], calls = []\<rparr>))
     = [Call_UpdateOne (M_id (ID pasta_doc))]
   \<and> calls (snd (db_DeleteRecipeHandler None (put_recipe ''5f1d7f3e8b0c4a2d9c6e1a77'' soup_doc)
                    \<lparr>documents = [pasta_doc], calls = []\<rparr>))
     = [Call_DeleteOne (M_id (ID pasta_doc))]"
proof -
  let ?coll = "\<lparr>documents = [pasta_doc], calls = []\<rparr>"
  have b: "ShouldBindJSON (delete_id ''xyz'' :: string Context) = Inl ''EOF''"
    by (simp add: delete_id_def)
  have b': "ShouldBindJSON (delete_id ''xyz'' :: ObjectID Context) = Inl ''EOF''"
    by (simp add: delete_id_def)
  have i: "ObjectIDFromHex (Param_id (delete_id ''xyz'' :: ObjectID Context))
             = Inl ''the provided hex string is not a valid ObjectID''"
    by (simp add: delete_id_def ObjectIDFromHex_def)
  have ok: "ShouldBindJSON (put_recipe [] soup) = Inr soup"
    by (simp add: put_recipe_def)
  have ok': "ShouldBindJSON (put_recipe ''5f1d7f3e8b0c4a2d9c6e1a77'' soup_doc) = Inr soup_doc"
    by (simp add: put_recipe_def)
  have j: "ObjectIDFromHex (Param_id (put_recipe ''5f1d7f3e8b0c4a2d9c6e1a77'' soup_doc))
             = Inr (ID pasta_doc)"
    by (simp add: put_recipe_def pasta_doc_parse)
  from refused_requests_never_reach_store [where c = "delete_id ''xyz''" and err = "''EOF''"
      and x = "''c9k3soup''" and t = 1700000001 and recipes = "[pasta]"
      and c' = "delete_id ''xyz''" and x' = "[]" and io = None and coll = ?coll
      and err' = "''the provided hex string is not a valid ObjectID''"] b b' i
  have refused:
    "mem_NewRecipeHandler ''c9k3soup'' 1700000001 (delete_id ''xyz'') [pasta]
       = (JSON StatusBadRequest (ErrorMsg ''EOF''), [pasta])"
    "mem_UpdateRecipeHandler (delete_id ''xyz'') [pasta]
       = (JSON StatusBadRequest (ErrorMsg ''EOF''), [pasta])"
    "db_NewRecipeHandler [] 1700000001 None (delete_id ''xyz'') ?coll
       = (JSON StatusBadRequest (ErrorMsg ''EOF''), ?coll)"
    "db_UpdateRecipeHandler None (delete_id ''xyz'') ?coll
       = (JSON StatusBadRequest (ErrorMsg ''the provided hex string is not a valid ObjectID''),
          ?coll)"
    "db_DeleteRecipeHandler None (delete_id ''xyz'') ?coll
       = (JSON StatusBadRequest (ErrorMsg ''the provided hex string is not a valid ObjectID''),
          ?coll)"
    by blast+
  from refused_requests_never_reach_store [where c = "put_recipe [] soup" and b = soup
      and x = "''c9k3soup''" and t = 1700000001 and recipes = "[pasta]"
      and c' = "put_recipe ''5f1d7f3e8b0c4a2d9c6e1a77'' soup_doc" and b' = soup_doc
      and x' = NilObjectID and io = None and coll = ?coll and y = "ID pasta_doc"] ok ok' j
  have passed:
    "mem_NewRecipeHandler ''c9k3soup'' 1700000001 (put_recipe [] soup) [pasta]
       = (JSON StatusOK (OneRecipe (soup\<lparr>ID := ''c9k3soup'', PublishedAt := 1700000001\<rparr>)),
          [pasta] @ [soup\<lparr>ID := ''c9k3soup'', PublishedAt := 1700000001\<rparr>])"
    "calls (snd (db_NewRecipeHandler NilObjectID 1700000001 None
                   (put_recipe ''5f1d7f3e8b0c4a2d9c6e1a77'' soup_doc) ?coll))
       = calls ?coll @ [Call_InsertOne (soup_doc\<lparr>ID := NilObjectID, PublishedAt := 1700000001\<rparr>)]"
    "calls (snd (db_UpdateRecipeHandler None (put_recipe ''5f1d7f3e8b0c4a2d9c6e1a77'' soup_doc)
                   ?coll)) = calls ?coll @ [Call_UpdateOne (M_id (ID pasta_doc))]"
    "calls (snd (db_DeleteRecipeHandler None (put_recipe ''5f1d7f3e8b0c4a2d9c6e1a77'' soup_doc)
                   ?coll)) = calls ?coll @ [Call_DeleteOne (M_id (ID pasta_doc))]"
    by blast+
  from refused passed show ?thesis by simp
qed

section \<open>The session check\<close>

lemma lookup_route_mem:
  "lookup_route rts req = Some (rt, ps) \<Longrightarrow> rt \<in> set rts"
  by (induction rts) (auto split: if_splits option.splits)

lemma recipe_routes_use_auth:
  "rt \<in> set routes \<Longrightarrow> Handle rt \<in> set recipe_handlers \<Longrightarrow> Use rt = [Sessions, AuthMiddleware]"
  by (auto simp: routes_def recipe_handlers_def authorized_def router_def)

lemma lookup_delete:
  "lookup_route routes (delete_request tok) =
     Some (authorized DELETE [Lit ''recipes'', Par ''id''] DeleteRecipeHandler,
           [(''id'', ''5f1d7f3e8b0c4a2d9c6e1a77'')])"
  by (simp add: routes_def delete_request_def authorized_def router_def)

lemma Token_delete_request: "Token (delete_request tok) = tok"
  by (simp add: delete_request_def)

text \<open>
  C7. A request that the router of \<open>main.go\<close> dispatches to one of the five recipe
  handlers and that carries no valid session (no token, or a token of no live
  session) is answered 401 by the middleware, and the server state comes back as it was,
  whatever the handlers are: the handler of the route is not run, and so nothing
  behind it is.
\<close>

theorem protected_routes_reject_without_session:
  assumes "lookup_route routes req = Some (rt, params)"
    and "Handle rt \<in> set recipe_handlers"
    and "\<not> valid_session (live sv) req"
  shows "ServeHTTP H req sv = (JSON StatusUnauthorized (ErrorMsg ''Unauthorized''), sv)"
proof -
  from assms(1) have "rt \<in> set routes" by (rule lookup_route_mem)
  then have "Use rt = [Sessions, AuthMiddleware]" using assms(2) by (rule recipe_routes_use_auth)
  with assms(1,3) show ?thesis
    by (simp add: ServeHTTP_def Authenticate_def)
qed

theorem protected_routes_reject_without_session_witness:
  "ServeHTTP counting_handlers (delete_request (Some ''stale'')) \<lparr>live = [''s1''], backend = 0\<rparr>
     = (JSON StatusUnauthorized (ErrorMsg ''Unauthorized''), \<lparr>live = [''s1''], backend = 0\<rparr>)
   \<and> ServeHTTP counting_handlers (delete_request None) \<lparr>live = [''s1''], backend = 0\<rparr>
     = (JSON StatusUnauthorized (ErrorMsg ''Unauthorized''), \<lparr>live = [''s1''], backend = 0\<rparr>)
   \<and> ServeHTTP counting_handlers (delete_request (Some ''s1'')) \<lparr>live = [''s1''], backend = 0\<rparr>
     = (JSON StatusOK (Message ''handled''), \<lparr>live = [''s1''], backend = 1\<rparr>)"
proof -
  let ?sv = "\<lparr>live = [''s1''], backend = 0::nat\<rparr>"
  have h: "Handle (authorized DELETE [Lit ''recipes'', Par ''id''] DeleteRecipeHandler)
             \<in> set recipe_handlers"
    by (simp add: authorized_def recipe_handlers_def)
  have v: "\<not> valid_session (live ?sv) (delete_request (Some ''stale''))"
    by (simp add: valid_session_def Token_delete_request)
  have n: "\<not> valid_session (live ?sv) (delete_request None)"
    by (simp add: valid_session_def Token_delete_request)
  have ok: "ServeHTTP counting_handlers (delete_request (Some ''s1'')) ?sv
     = (JSON StatusOK (Message ''handled''), \<lparr>live = [''s1''], backend = 1\<rparr>)"
    by (simp add: ServeHTTP_def lookup_delete authorized_def Authenticate_def valid_session_def
        Token_delete_request counting_handlers_def)
  show ?thesis
    using protected_routes_reject_without_session [OF lookup_delete h v, of counting_handlers]
      protected_routes_reject_without_session [OF lookup_delete h n, of counting_handlers] ok
    by simp
qed

end
